theory Spec2Isabelle
  imports Complex_Main "HOL-Library.Sublist"
begin

section \<open>JavaScript primitives used by the card\<close>

text \<open>
  Strings are lists of 8-bit characters, read as code units below 256. \<open>parseInt(s, 10)\<close>
  skips leading white space, reads an optional sign and then the longest prefix of decimal
  digits; it is \<open>NaN\<close> (here \<open>None\<close>) when there is no digit. Numbers that index slides
  are integers; scroll offsets and the measured slide width are real numbers.
\<close>

definition isStrWhiteSpaceChar :: "char \<Rightarrow> bool" where
  "isStrWhiteSpaceChar c = ((of_char c :: nat) \<in> {9, 10, 11, 12, 13, 32, 160})"

definition digitValue :: "char \<Rightarrow> nat option" where
  "digitValue c =
     (let n = (of_char c :: nat) in if 48 \<le> n \<and> n \<le> 57 then Some (n - 48) else None)"

fun parseDigits :: "string \<Rightarrow> nat \<Rightarrow> nat" where
  "parseDigits [] acc = acc"
| "parseDigits (c # cs) acc =
     (case digitValue c of None \<Rightarrow> acc | Some d \<Rightarrow> parseDigits cs (10 * acc + d))"

definition parseInt :: "string \<Rightarrow> int option" where
  "parseInt str =
     (let s = dropWhile isStrWhiteSpaceChar str;
          neg = (case s of [] \<Rightarrow> False | c # _ \<Rightarrow> c = CHR ''-'');
          z = (case s of [] \<Rightarrow> [] | c # cs \<Rightarrow> if c = CHR ''+'' \<or> c = CHR ''-'' then cs else s)
      in case z of
           [] \<Rightarrow> None
         | c # _ \<Rightarrow> (if digitValue c = None then None
                      else Some ((if neg then - 1 else 1) * int (parseDigits z 0))))"

text \<open>\<open>Math.round\<close> rounds to the nearest integer, halves upwards.\<close>

definition js_round :: "real \<Rightarrow> int" where
  "js_round x = \<lfloor>x + 1 / 2\<rfloor>"

text \<open>\<open>entity.startsWith('input_number.')\<close>: the numeric-helper naming convention.\<close>

definition isInputNumber :: "string \<Rightarrow> bool" where
  "isInputNumber entity = prefix ''input_number.'' entity"

text \<open>
  The values a configuration field can hold before \<open>setConfig\<close> has looked at it.
  Only an array carries child descriptions.
\<close>

datatype 'd js_value =
    JUndefined | JNull | JBool bool | JNumber int | JString string | JObject
  | JArray "'d list"

fun truthy :: "'d js_value \<Rightarrow> bool" where
  "truthy JUndefined = False"
| "truthy JNull = False"
| "truthy (JBool b) = b"
| "truthy (JNumber n) = (n \<noteq> 0)"
| "truthy (JString s) = (s \<noteq> [])"
| "truthy JObject = True"
| "truthy (JArray xs) = True"

fun isArray :: "'d js_value \<Rightarrow> bool" where
  "isArray (JArray xs) = True"
| "isArray _ = False"

section \<open>Data model\<close>

text \<open>
  The object handed to \<open>setConfig\<close>. A field that is \<open>undefined\<close> or \<open>null\<close> is
  \<open>None\<close>, which is what the \<open>??\<close> defaults test. The style fields (slide width, height,
  padding, gap, border radius, version label) only reach the style sheet and are left out.
\<close>

record 'd raw_config =
  raw_cards :: "'d js_value"
  raw_show_pagination :: "bool option"
  raw_start_card :: "int option"
  raw_loop_mode :: "string option"
  raw_state_entity :: "string option"
  raw_auto_hide_pagination :: "int option"
  raw_enable_reset_after :: "bool option"
  raw_reset_after_timeout :: "int option"
  raw_reset_target_card :: "int option"
  raw_auto_reset_enabled_entity :: "string option"

text \<open>The normalised configuration kept in \<open>this._config\<close>.\<close>

record 'd config =
  cards_cfg :: "'d list"
  show_pagination :: bool
  start_card :: int
  loop_mode :: string
  state_entity :: "string option"
  auto_hide_pagination :: int
  enable_reset_after :: bool
  reset_after_timeout :: int
  reset_target_card :: int
  auto_reset_enabled_entity :: "string option"

text \<open>The host context: for each entity id that exists, its state string.\<close>

record hass_obj =
  states :: "string \<rightharpoonup> string"

text \<open>
  A mounted child is either the element the host's factory returned or the inline
  \<open>ha-card\<close> placeholder that shows the failure message.
\<close>

datatype 'e slide = Card 'e | ErrorCard string

text \<open>A promise of the factory settles with an element or with a failure message.\<close>

datatype 'e outcome = Resolved 'e | Rejected string

datatype timer = ScrollTimer | ResetTimer | PaginationHideTimer | ScrollSettleTimer

text \<open>
  What the card does to the page and to the host, in the order it does it:
  which pagination dot it marks, the service calls, the scroll requests and the timers
  it clears and arms.
\<close>

datatype effect =
    UpdatePagination int
  | CallService string string string int
  | ScrollTo real bool
  | RetryGoToRealIndex int bool
  | SetTimer timer int
  | ClearTimer timer
  | ShowPagination
  | PaginationScrolling bool

text \<open>
  The instance fields of \<open>SwipeCardLite\<close>, followed by the part of the page the card
  reads back: whether the scroller and the pagination element are cached, the scroller's
  \<open>scrollLeft\<close> and whether it carries the \<open>snap-enabled\<close> class.
\<close>

record ('d, 'e) widget =
  config :: "'d config option"
  hass :: "hass_obj option"
  cards :: "'e slide list"
  allSlideCards :: "'e slide list"
  currentIndex :: int
  realIndex :: int
  initialized :: bool
  stateUpdateInProgress :: bool
  buildId :: nat
  isInfiniteMode :: bool
  jumping :: bool
  userScrolling :: bool
  rafPending :: bool
  cachedPagination :: bool
  cachedScroller :: bool
  lastSyncedValue :: "int option"
  syncedAt :: int
  scrollLeft :: real
  snapEnabled :: bool
  effects :: "effect list"

definition emit :: "effect \<Rightarrow> ('d, 'e) widget \<Rightarrow> ('d, 'e) widget" where
  "emit e w = w\<lparr>effects := effects w @ [e]\<rparr>"

text \<open>The state the constructor leaves.\<close>

definition new_widget :: "('d, 'e) widget" where
  "new_widget =
     \<lparr>config = None, hass = None, cards = [], allSlideCards = [], currentIndex = 0,
      realIndex = 0, initialized = False, stateUpdateInProgress = False, buildId = 0,
      isInfiniteMode = False, jumping = False, userScrolling = False, rafPending = False,
      cachedPagination = False, cachedScroller = False, lastSyncedValue = None,
      syncedAt = 0, scrollLeft = 0, snapEnabled = False, effects = []\<rparr>"

section \<open>Index translation\<close>

text \<open>
  The scroll handler turns a DOM index into a real index: one less in infinite mode
  (the leading clone), clamped to \<open>[0, n - 1]\<close> for \<open>n\<close> real cards. Programmatic
  navigation turns a real index into a DOM index: one more in infinite mode.
\<close>

definition clampIndex :: "int \<Rightarrow> int \<Rightarrow> int" where
  "clampIndex n i = max 0 (min i (n - 1))"

definition realIndexOf :: "bool \<Rightarrow> int \<Rightarrow> int \<Rightarrow> int" where
  "realIndexOf infiniteMode n domIndex =
     clampIndex n (if infiniteMode then domIndex - 1 else domIndex)"

definition domIndexOf :: "bool \<Rightarrow> int \<Rightarrow> int" where
  "domIndexOf infiniteMode r = (if infiniteMode then r + 1 else r)"

section \<open>Pagination, timers and the bound entity\<close>

text \<open>
  The functions below read \<open>this._config\<close> through the parameter \<open>cfg\<close>: they run only
  once a configuration has been accepted. \<open>ClearTimer t\<close> cancels the pending timer \<open>t\<close>
  if there is one.
\<close>

definition updatePagination :: "('d, 'e) widget \<Rightarrow> ('d, 'e) widget" where
  "updatePagination w =
     (if \<not> cachedPagination w then w else emit (UpdatePagination (realIndex w)) w)"

definition showPagination :: "('d, 'e) widget \<Rightarrow> ('d, 'e) widget" where
  "showPagination w =
     emit (ClearTimer PaginationHideTimer)
       (if cachedPagination w then emit ShowPagination w else w)"

definition startPaginationHideTimer :: "'d config \<Rightarrow> ('d, 'e) widget \<Rightarrow> ('d, 'e) widget" where
  "startPaginationHideTimer cfg w =
     (if auto_hide_pagination cfg \<le> 0 then w
      else emit (SetTimer PaginationHideTimer (auto_hide_pagination cfg))
             (emit (ClearTimer PaginationHideTimer) w))"

text \<open>A binding name counts as configured when it is a non-empty string.\<close>

fun entityOf :: "string option \<Rightarrow> string option" where
  "entityOf None = None"
| "entityOf (Some s) = (if s = [] then None else Some s)"

definition entityState :: "hass_obj option \<Rightarrow> string \<Rightarrow> string option" where
  "entityState h entity = (case h of None \<Rightarrow> None | Some hs \<Rightarrow> states hs entity)"

definition isAutoResetEnabled :: "'d config \<Rightarrow> ('d, 'e) widget \<Rightarrow> bool" where
  "isAutoResetEnabled cfg w =
     (case entityOf (auto_reset_enabled_entity cfg) of
        None \<Rightarrow> True
      | Some entity \<Rightarrow> entityState (hass w) entity = Some ''on'')"

definition resetResetTimer :: "'d config \<Rightarrow> ('d, 'e) widget \<Rightarrow> ('d, 'e) widget" where
  "resetResetTimer cfg w =
     (if \<not> enable_reset_after cfg then w
      else let w1 = emit (ClearTimer ResetTimer) w
           in if \<not> isAutoResetEnabled cfg w1 then w1
              else emit (SetTimer ResetTimer (reset_after_timeout cfg)) w1)"

text \<open>\<open>parseInt(hass.states[entity]?.state, 10)\<close>: the number the host reports, if any.\<close>

definition externalValue :: "hass_obj \<Rightarrow> string \<Rightarrow> int option" where
  "externalValue h entity = (case states h entity of None \<Rightarrow> None | Some st \<Rightarrow> parseInt st)"

text \<open>
  Outbound synchronisation (\<open>_syncToStateEntity\<close>); \<open>now\<close> is the value of
  \<open>Date.now()\<close>. Only a binding that follows the \<open>input_number.\<close> convention is written.
\<close>

definition syncToStateEntity :: "'d config \<Rightarrow> int \<Rightarrow> ('d, 'e) widget \<Rightarrow> ('d, 'e) widget" where
  "syncToStateEntity cfg now w =
     (case entityOf (state_entity cfg) of
        None \<Rightarrow> w
      | Some entity \<Rightarrow>
          (case hass w of
             None \<Rightarrow> w
           | Some h \<Rightarrow>
               if isInputNumber entity then
                 let targetValue = realIndex w + 1
                 in if externalValue h entity = Some targetValue then w
                    else emit (CallService ''input_number'' ''set_value'' entity targetValue)
                           (w\<lparr>lastSyncedValue := Some targetValue, syncedAt := now\<rparr>)
               else w))"

section \<open>Programmatic navigation and inbound synchronisation\<close>

text \<open>
  \<open>slideWidth\<close> is what \<open>_getSlideWidth()\<close> measures at the time of the call. With a
  width of zero the navigation is only rescheduled (50 ms later, \<open>RetryGoToRealIndex\<close>).
\<close>

definition goToRealIndex ::
  "real \<Rightarrow> int \<Rightarrow> bool \<Rightarrow> ('d, 'e) widget \<Rightarrow> ('d, 'e) widget" where
  "goToRealIndex slideWidth target smooth w =
     (if \<not> cachedScroller w then w
      else let r = clampIndex (int (length (cards w))) target;
               w1 = w\<lparr>realIndex := r\<rparr>;
               domIndex = domIndexOf (isInfiniteMode w1) r
           in if slideWidth = 0 then emit (RetryGoToRealIndex r smooth) w1
              else updatePagination
                     ((emit (ScrollTo (of_int domIndex * slideWidth) smooth) w1)
                        \<lparr>currentIndex := domIndex\<rparr>))"

definition syncFromStateEntity ::
  "'d config \<Rightarrow> real \<Rightarrow> int \<Rightarrow> hass_obj \<Rightarrow> ('d, 'e) widget \<Rightarrow> ('d, 'e) widget" where
  "syncFromStateEntity cfg slideWidth now newHass w =
     (case entityOf (state_entity cfg) of
        None \<Rightarrow> w
      | Some entity \<Rightarrow>
          if userScrolling w then w
          else (case states newHass entity of
                  None \<Rightarrow> w
                | Some newState \<Rightarrow>
                    if newState = [] then w
                    else (case parseInt newState of
                            None \<Rightarrow> w
                          | Some stateValue \<Rightarrow>
                              let targetIndex =
                                    (if isInputNumber entity then stateValue - 1 else stateValue)
                              in if targetIndex < 0 \<or> targetIndex \<ge> int (length (cards w)) then w
                                 else if targetIndex = realIndex w then w
                                 else if lastSyncedValue w = Some stateValue
                                         \<and> now - syncedAt w < 2000 then w
                                 else (goToRealIndex slideWidth targetIndex True
                                         (w\<lparr>stateUpdateInProgress := True\<rparr>))
                                        \<lparr>stateUpdateInProgress := False\<rparr>)))"

section \<open>Scroll handling, settling and the clone jump\<close>

text \<open>
  \<open>handleScroll\<close> is the synchronous part of the scroll listener and
  \<open>handleScroll_frame\<close> the animation-frame callback it schedules.
\<close>

definition handleScroll :: "('d, 'e) widget \<Rightarrow> ('d, 'e) widget" where
  "handleScroll w =
     (if jumping w then w
      else let w1 = emit (ClearTimer ScrollSettleTimer) (w\<lparr>userScrolling := True\<rparr>)
           in if rafPending w1 then w1 else w1\<lparr>rafPending := True\<rparr>)"

definition handleScroll_frame :: "real \<Rightarrow> ('d, 'e) widget \<Rightarrow> ('d, 'e) widget" where
  "handleScroll_frame slideWidth w =
     (let w1 = w\<lparr>rafPending := False\<rparr>
      in if jumping w1 then w1
         else let w2 = (if cachedPagination w1 then emit (PaginationScrolling True) w1 else w1);
                  w3 = emit (ClearTimer PaginationHideTimer) w2;
                  w4 = (if cachedScroller w3 \<and> slideWidth > 0 then
                          let domIndex = js_round (scrollLeft w3 / slideWidth);
                              r = realIndexOf (isInfiniteMode w3) (int (length (cards w3))) domIndex
                          in if r \<noteq> realIndex w3
                             then updatePagination (w3\<lparr>realIndex := r, currentIndex := domIndex\<rparr>)
                             else w3
                        else w3)
              in emit (SetTimer ScrollTimer 150) (emit (ClearTimer ScrollTimer) w4))"

text \<open>
  \<open>jumpToSlide\<close> is the synchronous part of the jump; \<open>jumpToSlide_frame\<close> is the
  callback of the second of its two nested animation frames. \<open>afterSettle\<close> is the run
  of statements that both that callback and \<open>_onScrollEnd\<close> end with: update the
  pagination, synchronise outwards, restart the reset timer and the hide timer when they
  are configured, and drop the pagination's scrolling style.
\<close>

definition jumpToSlide :: "real \<Rightarrow> int \<Rightarrow> int \<Rightarrow> ('d, 'e) widget \<Rightarrow> ('d, 'e) widget" where
  "jumpToSlide slideWidth targetDomIndex targetRealIndex w =
     (if \<not> cachedScroller w then w
      else w\<lparr>jumping := True, realIndex := targetRealIndex, currentIndex := targetDomIndex,
             snapEnabled := False, scrollLeft := of_int targetDomIndex * slideWidth\<rparr>)"

definition afterSettle :: "'d config \<Rightarrow> int \<Rightarrow> ('d, 'e) widget \<Rightarrow> ('d, 'e) widget" where
  "afterSettle cfg now w =
     (let w1 = updatePagination w;
          w2 = syncToStateEntity cfg now w1;
          w3 = (if enable_reset_after cfg then resetResetTimer cfg w2 else w2);
          w4 = (if auto_hide_pagination cfg > 0 then startPaginationHideTimer cfg w3 else w3)
      in if cachedPagination w4 then emit (PaginationScrolling False) w4 else w4)"


definition onScrollEnd :: "'d config \<Rightarrow> real \<Rightarrow> int \<Rightarrow> ('d, 'e) widget \<Rightarrow> ('d, 'e) widget" where
  "onScrollEnd cfg slideWidth now w =
     (if jumping w then w
      else if \<not> cachedScroller w then w
      else if slideWidth = 0 then w
      else let exactIndex = scrollLeft w / slideWidth;
               domIndex = js_round exactIndex;
               w1 = w\<lparr>currentIndex := domIndex\<rparr>;
               settled = (\<lambda>w2. emit (SetTimer ScrollSettleTimer 500)
                                  (emit (ClearTimer ScrollSettleTimer) (afterSettle cfg now w2)))
           in if isInfiniteMode w1 then
                let totalSlides = int (length (allSlideCards w1));
                    lastCloneIndex = totalSlides - 1;
                    tolerance = 1 / 10
                in if exactIndex < tolerance
                   then jumpToSlide slideWidth (int (length (cards w1)))
                          (int (length (cards w1)) - 1) w1
                   else if exactIndex > of_int lastCloneIndex - tolerance
                   then jumpToSlide slideWidth 1 0 w1
                   else settled (w1\<lparr>realIndex := domIndex - 1\<rparr>)
              else settled (w1\<lparr>realIndex := domIndex\<rparr>))"

text \<open>The scroll-settle timer, 500 ms after a settle that did not jump.\<close>

definition scrollSettle_fire :: "('d, 'e) widget \<Rightarrow> ('d, 'e) widget" where
  "scrollSettle_fire w = w\<lparr>userScrolling := False\<rparr>"

section \<open>Rendering\<close>

text \<open>
  \<open>_render\<close> fixes the starting position and mounts the slides: afterwards the scroller
  is cached, the pagination element is cached when it is shown, and scroll snapping is
  still off. \<open>start_card || 1\<close> replaces a start card of zero by one.
\<close>

definition render :: "'d config \<Rightarrow> ('d, 'e) widget \<Rightarrow> ('d, 'e) widget" where
  "render cfg w =
     (let showPag = (show_pagination cfg \<and> length (cards w) > 1);
          fromConfig = max 0 ((if start_card cfg = 0 then 1 else start_card cfg) - 1);
          startRealIndex =
            (case entityOf (state_entity cfg) of
               None \<Rightarrow> fromConfig
             | Some entity \<Rightarrow>
                 (case entityState (hass w) entity of
                    None \<Rightarrow> fromConfig
                  | Some stateValue \<Rightarrow>
                      (case parseInt stateValue of
                         None \<Rightarrow> fromConfig
                       | Some entityIndex \<Rightarrow>
                           if entityIndex \<ge> 1 \<and> entityIndex \<le> int (length (cards w))
                           then entityIndex - 1 else fromConfig)));
          startDomIndex = (if isInfiniteMode w then startRealIndex + 1 else startRealIndex)
      in w\<lparr>realIndex := startRealIndex, currentIndex := startDomIndex,
            cachedPagination := showPag, cachedScroller := True,
            scrollLeft := 0, snapEnabled := False\<rparr>)"

section \<open>The asynchronous build\<close>

text \<open>
  \<open>_buildCards\<close> is an \<open>async\<close> function: it runs until its next \<open>await\<close>, and is
  resumed later with what the awaited promise settled to; other handlers of the card can
  run in between. \<open>buildCards_start\<close> is the part before the first \<open>await\<close> (the card
  helpers); it yields the build id captured by the new build, if one goes on.
  \<open>buildCards_afterHelpers\<close> resumes a build that waited for the helpers, and
  \<open>buildCards_afterCreate\<close> one that waited for \<open>createCardElement\<close>; the task records
  where the build stands and which description was handed to the factory
  (\<open>None\<close>: the array had no such entry).
\<close>

datatype ('d, 'e) build_pc =
    AwaitCard 'd "'d list"
  | AwaitCloneOfLast "'d option"
  | AwaitCloneOfFirst "'e slide" "'d option"

record ('d, 'e) build_task =
  thisBuildId :: nat
  pc :: "('d, 'e) build_pc"

datatype ('d, 'e) build_result =
    Suspended "('d, 'e) build_task" "('d, 'e) widget"
  | Returned "('d, 'e) widget"
  | Threw string "('d, 'e) widget"

definition js_nth :: "'a list \<Rightarrow> int \<Rightarrow> 'a option" where
  "js_nth xs i = (if 0 \<le> i \<and> i < int (length xs) then Some (xs ! nat i) else None)"

definition buildCards_start :: "('d, 'e) widget \<Rightarrow> ('d, 'e) widget \<times> nat option" where
  "buildCards_start w =
     (if config w = None \<or> hass w = None then (w, None)
      else let w1 = w\<lparr>buildId := Suc (buildId w)\<rparr>
           in if initialized w1 then (w1, None) else (w1, Some (buildId w1)))"

text \<open>
  The end of a build that is still current: render, mark the card initialised, and start
  the timer that hides the pagination when one is configured.
\<close>

definition commit :: "'d config \<Rightarrow> ('d, 'e) widget \<Rightarrow> ('d, 'e) widget" where
  "commit cfg w =
     (let w1 = (render cfg w)\<lparr>initialized := True\<rparr>
      in if auto_hide_pagination cfg > 0 then startPaginationHideTimer cfg w1 else w1)"

definition buildCards_finish :: "nat \<Rightarrow> ('d, 'e) widget \<Rightarrow> ('d, 'e) build_result" where
  "buildCards_finish tid w =
     (if tid \<noteq> buildId w then Returned w
      else case config w of
             None \<Rightarrow> Threw ''TypeError'' w
           | Some cfg \<Rightarrow> Returned (commit cfg w))"

definition buildCards_afterLoop :: "nat \<Rightarrow> ('d, 'e) widget \<Rightarrow> ('d, 'e) build_result" where
  "buildCards_afterLoop tid w =
     (if tid \<noteq> buildId w then Returned w
      else case config w of
             None \<Rightarrow> Threw ''TypeError'' w
           | Some cfg \<Rightarrow>
               let loopMode = loop_mode cfg;
                   w1 = w\<lparr>isInfiniteMode :=
                            ((loopMode = ''infinite'' \<or> loopMode = ''loopback'')
                             \<and> length (cards w) > 1)\<rparr>;
                   w2 = w1\<lparr>allSlideCards := cards w1\<rparr>
               in if isInfiniteMode w2
                  then Suspended
                         \<lparr>thisBuildId = tid,
                          pc = AwaitCloneOfLast
                                 (js_nth (cards_cfg cfg) (int (length (cards_cfg cfg)) - 1))\<rparr> w2
                  else buildCards_finish tid w2)"

definition buildCards_loop ::
  "nat \<Rightarrow> 'd list \<Rightarrow> ('d, 'e) widget \<Rightarrow> ('d, 'e) build_result" where
  "buildCards_loop tid descs w =
     (case descs of
        [] \<Rightarrow> buildCards_afterLoop tid w
      | d # rest \<Rightarrow> Suspended \<lparr>thisBuildId = tid, pc = AwaitCard d rest\<rparr> w)"

definition buildCards_afterHelpers :: "nat \<Rightarrow> ('d, 'e) widget \<Rightarrow> ('d, 'e) build_result" where
  "buildCards_afterHelpers tid w =
     (if tid \<noteq> buildId w then Returned w
      else case config w of
             None \<Rightarrow> Threw ''TypeError'' w
           | Some cfg \<Rightarrow> buildCards_loop tid (cards_cfg cfg) (w\<lparr>cards := []\<rparr>))"

text \<open>
  The body of the loop's \<open>try\<close>: the element the factory gave, or in the \<open>catch\<close>
  branch the placeholder with the message of the failure. That the element is handed the
  context is not recorded.
\<close>

fun slideOf :: "'e outcome \<Rightarrow> 'e slide" where
  "slideOf (Resolved el) = Card el"
| "slideOf (Rejected msg) = ErrorCard msg"

definition buildCards_afterCreate ::
  "'e outcome \<Rightarrow> ('d, 'e) build_task \<Rightarrow> ('d, 'e) widget \<Rightarrow> ('d, 'e) build_result" where
  "buildCards_afterCreate res task w =
     (case pc task of
        AwaitCard d rest \<Rightarrow>
          buildCards_loop (thisBuildId task) rest
            (w\<lparr>cards := cards w @ [slideOf res]\<rparr>)
      | AwaitCloneOfLast d \<Rightarrow>
          (case res of
             Rejected msg \<Rightarrow> Threw msg w
           | Resolved cloneOfLast \<Rightarrow>
               (case config w of
                  None \<Rightarrow> Threw ''TypeError'' w
                | Some cfg \<Rightarrow>
                    Suspended
                      (task\<lparr>pc := AwaitCloneOfFirst (Card cloneOfLast)
                                     (js_nth (cards_cfg cfg) 0)\<rparr>) w))
      | AwaitCloneOfFirst cloneOfLast d \<Rightarrow>
          (case res of
             Rejected msg \<Rightarrow> Threw msg w
           | Resolved cloneOfFirst \<Rightarrow>
               buildCards_finish (thisBuildId task)
                 (w\<lparr>allSlideCards := [cloneOfLast] @ cards w @ [Card cloneOfFirst]\<rparr>)))"

text \<open>
  A build that nothing interrupts. \<open>createCardElement k d\<close> is what the host's factory
  settles to on its \<open>k\<close>-th call of this build, made for the description \<open>d\<close>; the card
  helpers are taken to load.
\<close>

fun awaited :: "('d, 'e) build_pc \<Rightarrow> 'd option" where
  "awaited (AwaitCard d rest) = Some d"
| "awaited (AwaitCloneOfLast d) = d"
| "awaited (AwaitCloneOfFirst c d) = d"

fun pending_awaits :: "('d, 'e) build_result \<Rightarrow> nat" where
  "pending_awaits (Suspended task w) =
     (case pc task of
        AwaitCard d rest \<Rightarrow> length rest + 3
      | AwaitCloneOfLast d \<Rightarrow> 2
      | AwaitCloneOfFirst c d \<Rightarrow> 1)"
| "pending_awaits (Returned w) = 0"
| "pending_awaits (Threw msg w) = 0"

function run_build ::
  "(nat \<Rightarrow> 'd option \<Rightarrow> 'e outcome) \<Rightarrow> nat \<Rightarrow> ('d, 'e) build_result \<Rightarrow> ('d, 'e) build_result" where
  "run_build createCardElement k (Suspended task w) =
     run_build createCardElement (Suc k)
       (buildCards_afterCreate (createCardElement k (awaited (pc task))) task w)"
| "run_build createCardElement k (Returned w) = Returned w"
| "run_build createCardElement k (Threw msg w) = Threw msg w"
  by pat_completeness auto

termination run_build
  by (relation "measure (\<lambda>(f, k, r). pending_awaits r)")
     (auto simp: buildCards_afterCreate_def buildCards_loop_def buildCards_afterLoop_def
        buildCards_finish_def Let_def
        split: build_pc.splits outcome.splits option.splits list.splits)

definition buildCards ::
  "(nat \<Rightarrow> 'd option \<Rightarrow> 'e outcome) \<Rightarrow> ('d, 'e) widget \<Rightarrow> ('d, 'e) build_result" where
  "buildCards createCardElement w =
     (case buildCards_start w of
        (w1, None) \<Rightarrow> Returned w1
      | (w1, Some tid) \<Rightarrow> run_build createCardElement 0 (buildCards_afterHelpers tid w1))"

fun final_widget :: "('d, 'e) build_result \<Rightarrow> ('d, 'e) widget" where
  "final_widget (Suspended task w) = w"
| "final_widget (Returned w) = w"
| "final_widget (Threw msg w) = w"

section \<open>The entry points the host calls\<close>

text \<open>
  The \<open>hass\<close> setter stores the new context, starts a build while the card is not
  initialised, lets the bound entity move the card, and restarts the reset timer when the
  pause toggle turns on. It returns the build id of the build it started, if any.
  Handing the context on to the mounted children is not recorded.
\<close>

definition set_hass ::
  "real \<Rightarrow> int \<Rightarrow> hass_obj \<Rightarrow> ('d, 'e) widget \<Rightarrow> ('d, 'e) widget \<times> nat option" where
  "set_hass slideWidth now h w =
     (let oldHass = hass w;
          w1 = w\<lparr>hass := Some h\<rparr>;
          started = (if \<not> initialized w1 \<and> config w1 \<noteq> None
                     then buildCards_start w1 else (w1, None));
          w2 = fst started;
          w3 = (case config w2 of
                  None \<Rightarrow> w2
                | Some cfg \<Rightarrow>
                    if entityOf (state_entity cfg) \<noteq> None \<and> initialized w2
                       \<and> \<not> stateUpdateInProgress w2
                    then syncFromStateEntity cfg slideWidth now h w2 else w2);
          w4 = (case config w3 of
                  None \<Rightarrow> w3
                | Some cfg \<Rightarrow>
                    (case entityOf (auto_reset_enabled_entity cfg) of
                       None \<Rightarrow> w3
                     | Some entity \<Rightarrow>
                         if initialized w3 \<and> states h entity = Some ''on''
                            \<and> entityState oldHass entity \<noteq> Some ''on''
                         then resetResetTimer cfg w3 else w3))
      in (w4, snd started))"



text \<open>
  \<open>setConfig\<close> throws \<open>Error('Please define cards')\<close> (the \<open>Inl\<close> result) or stores the
  normalised configuration and, when a context is there and the card is not initialised,
  starts a build.
\<close>

definition setConfig ::
  "'d raw_config \<Rightarrow> ('d, 'e) widget \<Rightarrow> string + (('d, 'e) widget \<times> nat option)" where
  "setConfig rc w =
     (if \<not> truthy (raw_cards rc) \<or> \<not> isArray (raw_cards rc) then Inl ''Please define cards''
      else let w1 = w\<lparr>config := Some
                      \<lparr>cards_cfg = (case raw_cards rc of JArray ds \<Rightarrow> ds | _ \<Rightarrow> []),
                       show_pagination = (raw_show_pagination rc \<noteq> Some False),
                       start_card = (case raw_start_card rc of None \<Rightarrow> 1 | Some v \<Rightarrow> v),
                       loop_mode = (case raw_loop_mode rc of None \<Rightarrow> ''none'' | Some v \<Rightarrow> v),
                       state_entity = raw_state_entity rc,
                       auto_hide_pagination =
                         (case raw_auto_hide_pagination rc of None \<Rightarrow> 0 | Some v \<Rightarrow> v),
                       enable_reset_after =
                         (case raw_enable_reset_after rc of None \<Rightarrow> False | Some v \<Rightarrow> v),
                       reset_after_timeout =
                         (case raw_reset_after_timeout rc of None \<Rightarrow> 30000 | Some v \<Rightarrow> v),
                       reset_target_card =
                         (case raw_reset_target_card rc of None \<Rightarrow> 1 | Some v \<Rightarrow> v),
                       auto_reset_enabled_entity = raw_auto_reset_enabled_entity rc\<rparr>\<rparr>
           in if hass w1 \<noteq> None \<and> \<not> initialized w1 then Inr (buildCards_start w1)
              else Inr (w1, None))"

section \<open>An undisturbed build, described\<close>

text \<open>
  The slides an undisturbed build makes from a list of descriptions, the first of them with
  the factory's call number \<open>k\<close>; and the state such a build has reached when it decides
  whether to loop. Both only serve to state what \<open>buildCards\<close> computes.
\<close>

fun built_cards :: "(nat \<Rightarrow> 'd option \<Rightarrow> 'e outcome) \<Rightarrow> nat \<Rightarrow> 'd list \<Rightarrow> 'e slide list" where
  "built_cards createCardElement k [] = []"
| "built_cards createCardElement k (d # ds) =
     slideOf (createCardElement k (Some d)) # built_cards createCardElement (Suc k) ds"

definition decided :: "(nat \<Rightarrow> 'd option \<Rightarrow> 'e outcome) \<Rightarrow> 'd config \<Rightarrow> ('d, 'e) widget \<Rightarrow> ('d, 'e) widget" where
  "decided fac cfg w =
     w\<lparr>buildId := Suc (buildId w), cards := built_cards fac 0 (cards_cfg cfg),
       isInfiniteMode := ((loop_mode cfg = ''infinite'' \<or> loop_mode cfg = ''loopback'')
                           \<and> length (cards_cfg cfg) > 1),
       allSlideCards := built_cards fac 0 (cards_cfg cfg)\<rparr>"

section \<open>A sample card\<close>

text \<open>
  Three children, looping, bound to the numeric helper \<open>input_number.page\<close>. The sample
  factory never fails and returns the description paired with the number of the call, so
  that two elements made from one description are told apart. \<open>demo_widget\<close> is the card
  after an undisturbed build while the helper reads \<open>2.0\<close>.
\<close>

definition demo_config :: "string config" where
  "demo_config =
     \<lparr>cards_cfg = [''weather'', ''lights'', ''media''], show_pagination = True, start_card = 3,
      loop_mode = ''infinite'', state_entity = Some ''input_number.page'',
      auto_hide_pagination = 0, enable_reset_after = True, reset_after_timeout = 30000,
      reset_target_card = 1, auto_reset_enabled_entity = None\<rparr>"

definition demo_hass :: "string \<Rightarrow> hass_obj" where
  "demo_hass st = \<lparr>states = [''input_number.page'' \<mapsto> st]\<rparr>"

definition demo_factory :: "nat \<Rightarrow> string option \<Rightarrow> (string \<times> nat) outcome" where
  "demo_factory k d =
     (case d of None \<Rightarrow> Rejected ''no card configuration'' | Some x \<Rightarrow> Resolved (x, k))"

definition demo_start :: "(string, string \<times> nat) widget" where
  "demo_start = new_widget\<lparr>config := Some demo_config, hass := Some (demo_hass ''2.0'')\<rparr>"

definition demo_widget :: "(string, string \<times> nat) widget" where
  "demo_widget = final_widget (buildCards demo_factory demo_start)"

text \<open>
  The user drags the built card to 30 px, with slides 100 px wide, and holds it there until
  the scroll timer fires.
\<close>

definition held_drag :: "(string, string \<times> nat) widget" where
  "held_drag =
     onScrollEnd demo_config 100 9000
       (handleScroll_frame 100 (handleScroll (demo_widget\<lparr>scrollLeft := 30\<rparr>)))"




text \<open>The sample card without a bound entity and with a start card beyond its three cards.\<close>

definition late_start :: "(string, string \<times> nat) widget" where
  "late_start =
     new_widget\<lparr>config := Some (demo_config\<lparr>start_card := 5, state_entity := None\<rparr>),
                hass := Some (demo_hass ''2.0'')\<rparr>"

text \<open>
  A card whose last child cannot be built: the factory fails on the description
  \<open>broken\<close> whenever it is asked for it.
\<close>

definition broken_config :: "string config" where
  "broken_config = demo_config\<lparr>cards_cfg := [''weather'', ''broken'']\<rparr>"

definition broken_factory :: "nat \<Rightarrow> string option \<Rightarrow> (string \<times> nat) outcome" where
  "broken_factory k d =
     (if d = Some ''broken'' then Rejected ''Unknown type encountered: broken''
      else demo_factory k d)"

definition broken_start :: "string \<Rightarrow> (string, string \<times> nat) widget" where
  "broken_start mode =
     new_widget\<lparr>config := Some (broken_config\<lparr>loop_mode := mode\<rparr>),
                hass := Some (demo_hass ''1.0'')\<rparr>"

text \<open>
  Two builds of a card with a single child that overlap. The first context starts build 1,
  which loads the helpers and asks the factory for its card. A second context arrives
  before the factory answers and starts build 2, which also loads the helpers and asks for
  its card. Then the factory answers build 1, and after that build 2.
\<close>

definition single_config :: "string config" where
  "single_config = demo_config\<lparr>cards_cfg := [''weather''], loop_mode := ''none''\<rparr>"

definition first_task :: "(string, string \<times> nat) build_task" where
  "first_task = \<lparr>thisBuildId = 1, pc = AwaitCard ''weather'' []\<rparr>"

definition second_task :: "(string, string \<times> nat) build_task" where
  "second_task = \<lparr>thisBuildId = 2, pc = AwaitCard ''weather'' []\<rparr>"

definition race_context1 :: "(string, string \<times> nat) widget \<times> nat option" where
  "race_context1 = set_hass 100 0 (demo_hass ''1.0'') (new_widget\<lparr>config := Some single_config\<rparr>)"

definition race_helpers1 :: "(string, string \<times> nat) build_result" where
  "race_helpers1 = buildCards_afterHelpers 1 (fst race_context1)"

definition race_context2 :: "(string, string \<times> nat) widget \<times> nat option" where
  "race_context2 = set_hass 100 50 (demo_hass ''1.0'') (final_widget race_helpers1)"

definition race_helpers2 :: "(string, string \<times> nat) build_result" where
  "race_helpers2 = buildCards_afterHelpers 2 (fst race_context2)"

definition race_card1 :: "(string, string \<times> nat) build_result" where
  "race_card1 = buildCards_afterCreate (Resolved (''weather'', 0)) first_task (final_widget race_helpers2)"

definition race_card2 :: "(string, string \<times> nat) build_result" where
  "race_card2 = buildCards_afterCreate (Resolved (''weather'', 1)) second_task (final_widget race_card1)"

text \<open>A configuration object that sets nothing but an empty list of cards.\<close>

definition empty_cards_config :: "string raw_config" where
  "empty_cards_config =
     \<lparr>raw_cards = JArray [], raw_show_pagination = None, raw_start_card = None,
      raw_loop_mode = None, raw_state_entity = None, raw_auto_hide_pagination = None,
      raw_enable_reset_after = None, raw_reset_after_timeout = None,
      raw_reset_target_card = None, raw_auto_reset_enabled_entity = None\<rparr>"

section \<open>Properties\<close>

subsection \<open>Evaluation of the sample card\<close>

lemmas js_simps = parseInt_def isStrWhiteSpaceChar_def digitValue_def isInputNumber_def
  externalValue_def entityState_def js_nth_def js_round_def

lemmas build_simps = buildCards_def buildCards_start_def buildCards_afterHelpers_def
  buildCards_loop_def buildCards_afterCreate_def buildCards_afterLoop_def buildCards_finish_def
  commit_def render_def startPaginationHideTimer_def

lemma demo_widget_built:
  "demo_widget =
     \<lparr>config = Some demo_config, hass = Some (demo_hass ''2.0''),
      cards = [Card (''weather'', 0), Card (''lights'', 1), Card (''media'', 2)],
      allSlideCards = [Card (''media'', 3), Card (''weather'', 0), Card (''lights'', 1),
                       Card (''media'', 2), Card (''weather'', 4)],
      currentIndex = 2, realIndex = 1, initialized = True, stateUpdateInProgress = False,
      buildId = 1, isInfiniteMode = True, jumping = False, userScrolling = False,
      rafPending = False, cachedPagination = True, cachedScroller = True,
      lastSyncedValue = None, syncedAt = 0, scrollLeft = 0, snapEnabled = False,
      effects = []\<rparr>"
  by (simp add: demo_widget_def demo_start_def build_simps js_simps new_widget_def
        demo_config_def demo_hass_def demo_factory_def Let_def)

lemmas settle_simps = afterSettle_def updatePagination_def syncToStateEntity_def
  resetResetTimer_def isAutoResetEnabled_def startPaginationHideTimer_def emit_def

lemma demo_facts:
  "entityOf (state_entity demo_config) = Some ''input_number.page''"
  "isInputNumber ''input_number.page''"
  by (simp_all add: demo_config_def isInputNumber_def)

lemma demo_parse:
  "parseInt ''1.0'' = Some 1" "parseInt ''2.0'' = Some 2" "parseInt ''3.0'' = Some 3"
  "parseInt ''7'' = Some 7" "parseInt ''unavailable'' = None"
  by (simp_all add: parseInt_def isStrWhiteSpaceChar_def digitValue_def)

lemma demo_states: "states (demo_hass st) ''input_number.page'' = Some st"
  by (simp add: demo_hass_def)

subsection \<open>Index translation\<close>


text \<open>
  C8. For every number of slides \<open>n \<ge> 1\<close>, either mode, and every real index in
  \<open>[0, n - 1]\<close>: translating the real index to a DOM index, back to a real index and
  again to a DOM index gives the DOM index of the first translation.
\<close>

theorem index_translation_round_trip:
  assumes "1 \<le> n" and "0 \<le> r" and "r \<le> n - 1"
  shows "domIndexOf loop (realIndexOf loop n (domIndexOf loop r)) = domIndexOf loop r"
  using assms by (simp add: domIndexOf_def realIndexOf_def clampIndex_def)

theorem index_translation_round_trip_witness:
  "(1::int) \<le> 3 \<and> (0::int) \<le> 2 \<and> (2::int) \<le> 3 - 1
   \<and> domIndexOf True (realIndexOf True 3 (domIndexOf True 2)) = domIndexOf True 2
   \<and> domIndexOf True 2 = 3"
  using index_translation_round_trip [of 3 2 True] by (simp add: domIndexOf_def)


subsection \<open>Accepting a configuration\<close>

text \<open>
  C9, as amended. \<open>setConfig\<close> throws its error exactly when the \<open>cards\<close> entry of the
  configuration is not an array: when it is missing, \<open>null\<close> or any other value. For every
  array, the empty one included, it does not throw and stores the list as given.
\<close>

theorem setConfig_rejects_exactly_non_arrays:
  "(raw_cards rc = JArray ds \<longrightarrow>
      (\<exists>w' started. setConfig rc w = Inr (w', started)
          \<and> (\<exists>cfg. config w' = Some cfg \<and> cards_cfg cfg = ds)))
   \<and> ((\<forall>ds. raw_cards rc \<noteq> JArray ds) \<longrightarrow> setConfig rc w = Inl ''Please define cards'')"
proof (intro conjI impI)
  assume "raw_cards rc = JArray ds"
  then show "\<exists>w' started. setConfig rc w = Inr (w', started)
          \<and> (\<exists>cfg. config w' = Some cfg \<and> cards_cfg cfg = ds)"
    by (simp add: setConfig_def buildCards_start_def Let_def)
next
  assume "\<forall>ds. raw_cards rc \<noteq> JArray ds"
  then show "setConfig rc w = Inl ''Please define cards''"
    by (cases "raw_cards rc") (simp_all add: setConfig_def)
qed

theorem setConfig_rejects_exactly_non_arrays_witness:
  "raw_cards empty_cards_config = JArray []
   \<and> (\<exists>w' started. setConfig empty_cards_config (new_widget :: (string, nat) widget) = Inr (w', started)
         \<and> (\<exists>cfg. config w' = Some cfg \<and> cards_cfg cfg = []))
   \<and> raw_cards (empty_cards_config\<lparr>raw_cards := JUndefined\<rparr>) = JUndefined
   \<and> setConfig (empty_cards_config\<lparr>raw_cards := JUndefined\<rparr>) (new_widget :: (string, nat) widget)
       = Inl ''Please define cards''"
proof -
  have a: "raw_cards empty_cards_config = JArray []" by (simp add: empty_cards_config_def)
  have b: "\<forall>ds. raw_cards (empty_cards_config\<lparr>raw_cards := JUndefined\<rparr>) \<noteq> JArray ds" by simp
  show ?thesis
    using setConfig_rejects_exactly_non_arrays
            [of empty_cards_config "[]" "new_widget :: (string, nat) widget"]
          setConfig_rejects_exactly_non_arrays
            [of "empty_cards_config\<lparr>raw_cards := JUndefined\<rparr>" "[]"
                "new_widget :: (string, nat) widget"] a b
    by simp
qed

text \<open>With the empty list among the rejected ones the property fails: it is accepted.\<close>

theorem setConfig_accepts_empty_list:
  "setConfig empty_cards_config (new_widget :: (string, nat) widget) =
     Inr (new_widget
            \<lparr>config := Some
               \<lparr>cards_cfg = [], show_pagination = True, start_card = 1, loop_mode = ''none'',
                state_entity = None, auto_hide_pagination = 0, enable_reset_after = False,
                reset_after_timeout = 30000, reset_target_card = 1,
                auto_reset_enabled_entity = None\<rparr>\<rparr>, None)"
  by (simp add: setConfig_def empty_cards_config_def new_widget_def)

subsection \<open>The starting slide\<close>

text \<open>
  C10. At the first render the real index is \<open>max 0 (start_card - 1)\<close>, unless a state
  entity is configured, exists in the context and its state parses to an integer between
  1 and the number of cards: then the real index is that integer minus one.
\<close>

theorem render_starting_index:
  "(entityOf (state_entity cfg) = Some entity \<and> entityState (hass w) entity = Some st
      \<and> parseInt st = Some v \<and> 1 \<le> v \<and> v \<le> int (length (cards w))
      \<longrightarrow> realIndex (render cfg w) = v - 1)
   \<and> (\<not> (\<exists>entity st v. entityOf (state_entity cfg) = Some entity
            \<and> entityState (hass w) entity = Some st
            \<and> parseInt st = Some v \<and> 1 \<le> v \<and> v \<le> int (length (cards w)))
      \<longrightarrow> realIndex (render cfg w) = max 0 (start_card cfg - 1))"
  by (auto simp: render_def Let_def split: option.splits)

theorem render_starting_index_witness:
  "entityOf (state_entity demo_config) = Some ''input_number.page''
   \<and> entityState (hass demo_widget) ''input_number.page'' = Some ''2.0''
   \<and> parseInt ''2.0'' = Some 2 \<and> int (length (cards demo_widget)) = 3
   \<and> start_card demo_config = 3
   \<and> realIndex (render demo_config demo_widget) = 1
   \<and> realIndex (render (demo_config\<lparr>state_entity := None\<rparr>) demo_widget) = 2
   \<and> realIndex (render demo_config (demo_widget\<lparr>hass := Some (demo_hass ''7'')\<rparr>)) = 2"
proof -
  have a: "entityState (hass demo_widget) ''input_number.page'' = Some ''2.0''"
    by (simp add: demo_widget_built entityState_def demo_states)
  have n: "int (length (cards demo_widget)) = 3" by (simp add: demo_widget_built)
  have s: "start_card demo_config = 3" by (simp add: demo_config_def)
  have r1: "realIndex (render demo_config demo_widget) = 1"
    using render_starting_index [of demo_config "''input_number.page''" demo_widget "''2.0''" 2]
      a n demo_facts demo_parse by simp
  have r2: "realIndex (render (demo_config\<lparr>state_entity := None\<rparr>) demo_widget) = 2"
    using render_starting_index [of "demo_config\<lparr>state_entity := None\<rparr>" _ demo_widget] s
    by simp
  have none: "\<not> (\<exists>entity st v. entityOf (state_entity demo_config) = Some entity
            \<and> entityState (hass (demo_widget\<lparr>hass := Some (demo_hass ''7'')\<rparr>)) entity = Some st
            \<and> parseInt st = Some v \<and> 1 \<le> v
            \<and> v \<le> int (length (cards (demo_widget\<lparr>hass := Some (demo_hass ''7'')\<rparr>))))"
    using n by (auto simp: demo_facts entityState_def demo_states demo_parse)
  have r3: "realIndex (render demo_config (demo_widget\<lparr>hass := Some (demo_hass ''7'')\<rparr>)) = 2"
    using render_starting_index [of demo_config _ "demo_widget\<lparr>hass := Some (demo_hass ''7'')\<rparr>",
        THEN conjunct2, THEN mp, OF none] s
    by simp
  show ?thesis using a n s r1 r2 r3 demo_facts demo_parse by simp
qed

subsection \<open>Outbound synchronisation\<close>

text \<open>
  C5, as amended. Without a configured binding the outbound synchronisation does nothing.
  With a binding that follows the \<open>input_number.\<close> convention it compares the value the
  host context reports with the real index plus one. When they are equal nothing is
  written. Otherwise the real index plus one is written through the service call, and the
  state the call is issued from already holds that value and the time as the last synced
  value. A second commit to the same real index writes nothing once the host context
  reports the written value.
\<close>

theorem syncToStateEntity_outbound:
  "(entityOf (state_entity cfg) = None \<longrightarrow> syncToStateEntity cfg now w = w)
   \<and> (entityOf (state_entity cfg) = Some entity \<and> isInputNumber entity \<and> hass w = Some h \<longrightarrow>
        (externalValue h entity = Some (realIndex w + 1) \<longrightarrow> syncToStateEntity cfg now w = w)
      \<and> (externalValue h entity \<noteq> Some (realIndex w + 1) \<longrightarrow>
           syncToStateEntity cfg now w =
             emit (CallService ''input_number'' ''set_value'' entity (realIndex w + 1))
               (w\<lparr>lastSyncedValue := Some (realIndex w + 1), syncedAt := now\<rparr>))
      \<and> (\<forall>h' now'. externalValue h' entity = Some (realIndex w + 1) \<longrightarrow>
           syncToStateEntity cfg now' ((syncToStateEntity cfg now w)\<lparr>hass := Some h'\<rparr>)
             = (syncToStateEntity cfg now w)\<lparr>hass := Some h'\<rparr>))"
  by (simp add: syncToStateEntity_def Let_def emit_def)

theorem syncToStateEntity_outbound_witness:
  "entityOf (state_entity (demo_config\<lparr>state_entity := None\<rparr>)) = None
   \<and> syncToStateEntity (demo_config\<lparr>state_entity := None\<rparr>) 5000 demo_widget = demo_widget
   \<and> entityOf (state_entity demo_config) = Some ''input_number.page''
   \<and> isInputNumber ''input_number.page''
   \<and> hass demo_widget = Some (demo_hass ''2.0'')
   \<and> externalValue (demo_hass ''2.0'') ''input_number.page'' = Some (realIndex demo_widget + 1)
   \<and> syncToStateEntity demo_config 5000 demo_widget = demo_widget
   \<and> externalValue (demo_hass ''1.0'') ''input_number.page'' \<noteq> Some (realIndex demo_widget + 1)
   \<and> effects (syncToStateEntity demo_config 5000 (demo_widget\<lparr>hass := Some (demo_hass ''1.0'')\<rparr>))
       = [CallService ''input_number'' ''set_value'' ''input_number.page'' 2]
   \<and> lastSyncedValue (syncToStateEntity demo_config 5000 (demo_widget\<lparr>hass := Some (demo_hass ''1.0'')\<rparr>)) = Some 2
   \<and> syncedAt (syncToStateEntity demo_config 5000 (demo_widget\<lparr>hass := Some (demo_hass ''1.0'')\<rparr>)) = 5000
   \<and> effects (syncToStateEntity demo_config 5100
        ((syncToStateEntity demo_config 5000 (demo_widget\<lparr>hass := Some (demo_hass ''1.0'')\<rparr>))
           \<lparr>hass := Some (demo_hass ''2.0'')\<rparr>))
       = [CallService ''input_number'' ''set_value'' ''input_number.page'' 2]"
proof -
  note a = demo_facts(1) and b = demo_facts(2)
  have c: "externalValue (demo_hass ''2.0'') ''input_number.page'' = Some 2"
    by (simp add: js_simps demo_hass_def)
  have d: "externalValue (demo_hass ''1.0'') ''input_number.page'' = Some 1"
    by (simp add: js_simps demo_hass_def)
  have r: "realIndex demo_widget = 1" "hass demo_widget = Some (demo_hass ''2.0'')"
    "effects demo_widget = []"
    by (simp_all add: demo_widget_built)
  note t1 = syncToStateEntity_outbound [of demo_config 5000 demo_widget "''input_number.page''"
      "demo_hass ''2.0''"]
  note t2 = syncToStateEntity_outbound [of demo_config 5000
      "demo_widget\<lparr>hass := Some (demo_hass ''1.0'')\<rparr>" "''input_number.page''" "demo_hass ''1.0''"]
  from t1 a b c r have s1: "syncToStateEntity demo_config 5000 demo_widget = demo_widget" by simp
  from t2 a b d r have s2: "syncToStateEntity demo_config 5000 (demo_widget\<lparr>hass := Some (demo_hass ''1.0'')\<rparr>)
     = emit (CallService ''input_number'' ''set_value'' ''input_number.page'' 2)
               (demo_widget\<lparr>hass := Some (demo_hass ''1.0''), lastSyncedValue := Some 2, syncedAt := 5000\<rparr>)"
    by simp
  have p: "entityOf (state_entity demo_config) = Some ''input_number.page''
      \<and> isInputNumber ''input_number.page''
      \<and> hass (demo_widget\<lparr>hass := Some (demo_hass ''1.0'')\<rparr>) = Some (demo_hass ''1.0'')"
    using a b by simp
  have e: "externalValue (demo_hass ''2.0'') ''input_number.page''
      = Some (realIndex (demo_widget\<lparr>hass := Some (demo_hass ''1.0'')\<rparr>) + 1)"
    using c r by simp
  from t2 [THEN conjunct2, THEN mp, OF p, THEN conjunct2, THEN conjunct2, THEN spec, THEN spec,
      THEN mp, OF e]
  have s3: "syncToStateEntity demo_config 5100
        ((syncToStateEntity demo_config 5000 (demo_widget\<lparr>hass := Some (demo_hass ''1.0'')\<rparr>))
           \<lparr>hass := Some (demo_hass ''2.0'')\<rparr>) = (syncToStateEntity demo_config 5000 (demo_widget\<lparr>hass := Some (demo_hass ''1.0'')\<rparr>))
           \<lparr>hass := Some (demo_hass ''2.0'')\<rparr>" .
  have s0: "syncToStateEntity (demo_config\<lparr>state_entity := None\<rparr>) 5000 demo_widget = demo_widget"
    using syncToStateEntity_outbound [of "demo_config\<lparr>state_entity := None\<rparr>" 5000 demo_widget]
    by simp
  show ?thesis
    unfolding s3 unfolding s2 s1 s0 using a b c d r by (simp add: emit_def)
qed

text \<open>
  Without the condition on the host context the property fails: while the context still
  reports the old value, a second commit to the same real index writes again.
\<close>

theorem outbound_sync_pushes_again_before_echo:
  "effects (syncToStateEntity demo_config 5100
      (syncToStateEntity demo_config 5000 (demo_widget\<lparr>hass := Some (demo_hass ''1.0'')\<rparr>)))
   = [CallService ''input_number'' ''set_value'' ''input_number.page'' 2,
      CallService ''input_number'' ''set_value'' ''input_number.page'' 2]
   \<and> realIndex (syncToStateEntity demo_config 5000 (demo_widget\<lparr>hass := Some (demo_hass ''1.0'')\<rparr>))
     = realIndex demo_widget"
  by (simp add: demo_widget_built syncToStateEntity_def demo_config_def demo_hass_def js_simps emit_def Let_def)

subsection \<open>Inbound synchronisation\<close>

text \<open>
  C4. An inbound update changes nothing while the user is scrolling, when no binding is
  configured, when the entity is absent, when its state does not parse, when the parsed
  target is out of range or equals the current real index, and when the parsed value is
  the value last written by the card less than 2000 ms ago. In every other case the
  update navigates to the target, which then differs from the current real index.
\<close>

theorem syncFromStateEntity_inbound:
  "(userScrolling w \<longrightarrow> syncFromStateEntity cfg slideWidth now newHass w = w)
   \<and> (entityOf (state_entity cfg) = None \<longrightarrow> syncFromStateEntity cfg slideWidth now newHass w = w)
   \<and> (entityOf (state_entity cfg) = Some entity \<longrightarrow>
        (states newHass entity = None \<longrightarrow> syncFromStateEntity cfg slideWidth now newHass w = w)
      \<and> (states newHass entity = Some st \<longrightarrow>
           (parseInt st = None \<longrightarrow> syncFromStateEntity cfg slideWidth now newHass w = w)
         \<and> (parseInt st = Some v \<longrightarrow>
              (let target = (if isInputNumber entity then v - 1 else v) in
                 (target < 0 \<or> int (length (cards w)) \<le> target \<longrightarrow>
                    syncFromStateEntity cfg slideWidth now newHass w = w)
               \<and> (target = realIndex w \<longrightarrow>
                    syncFromStateEntity cfg slideWidth now newHass w = w)
               \<and> (lastSyncedValue w = Some v \<and> now - syncedAt w < 2000 \<longrightarrow>
                    syncFromStateEntity cfg slideWidth now newHass w = w)
               \<and> (\<not> userScrolling w \<and> 0 \<le> target \<and> target < int (length (cards w))
                    \<and> target \<noteq> realIndex w
                    \<and> \<not> (lastSyncedValue w = Some v \<and> now - syncedAt w < 2000) \<longrightarrow>
                    syncFromStateEntity cfg slideWidth now newHass w =
                      (goToRealIndex slideWidth target True (w\<lparr>stateUpdateInProgress := True\<rparr>))
                        \<lparr>stateUpdateInProgress := False\<rparr>
                    \<and> (cachedScroller w \<longrightarrow>
                          realIndex (syncFromStateEntity cfg slideWidth now newHass w) = target))))))"
proof -
  have nonempty: "parseInt st = Some v \<Longrightarrow> st \<noteq> []" for st v
    by (auto simp: parseInt_def)
  have goto: "cachedScroller w \<Longrightarrow> 0 \<le> t \<Longrightarrow> t < int (length (cards w)) \<Longrightarrow>
      realIndex ((goToRealIndex slideWidth t True (w\<lparr>stateUpdateInProgress := True\<rparr>))
                        \<lparr>stateUpdateInProgress := False\<rparr>) = t" for t
    by (simp add: goToRealIndex_def clampIndex_def updatePagination_def emit_def Let_def)
  show ?thesis
    using nonempty goto
    by (auto simp: syncFromStateEntity_def Let_def split: option.splits)
qed

theorem syncFromStateEntity_inbound_witness:
  "userScrolling (demo_widget\<lparr>userScrolling := True\<rparr>)
   \<and> syncFromStateEntity demo_config 100 9000 (demo_hass ''3.0'') (demo_widget\<lparr>userScrolling := True\<rparr>)
       = demo_widget\<lparr>userScrolling := True\<rparr>
   \<and> syncFromStateEntity (demo_config\<lparr>state_entity := None\<rparr>) 100 9000 (demo_hass ''3.0'')
        demo_widget = demo_widget
   \<and> syncFromStateEntity demo_config 100 9000 \<lparr>states = Map.empty\<rparr> demo_widget = demo_widget
   \<and> syncFromStateEntity demo_config 100 9000 (demo_hass ''unavailable'') demo_widget = demo_widget
   \<and> syncFromStateEntity demo_config 100 9000 (demo_hass ''7'') demo_widget = demo_widget
   \<and> syncFromStateEntity demo_config 100 9000 (demo_hass ''2.0'') demo_widget = demo_widget
   \<and> syncFromStateEntity demo_config 100 9000 (demo_hass ''3.0'')
        (demo_widget\<lparr>lastSyncedValue := Some 3, syncedAt := 7001\<rparr>)
       = demo_widget\<lparr>lastSyncedValue := Some 3, syncedAt := 7001\<rparr>
   \<and> realIndex (syncFromStateEntity demo_config 100 9001 (demo_hass ''3.0'')
        (demo_widget\<lparr>lastSyncedValue := Some 3, syncedAt := 7001\<rparr>)) = 2
   \<and> effects (syncFromStateEntity demo_config 100 9001 (demo_hass ''3.0'')
        (demo_widget\<lparr>lastSyncedValue := Some 3, syncedAt := 7001\<rparr>))
       = [ScrollTo 300 True, UpdatePagination 2]"
proof -
  note d = demo_facts demo_parse demo_states demo_widget_built
  have a: "syncFromStateEntity demo_config 100 9000 (demo_hass ''3.0'') (demo_widget\<lparr>userScrolling := True\<rparr>)
       = demo_widget\<lparr>userScrolling := True\<rparr>"
    using syncFromStateEntity_inbound [where w = "demo_widget\<lparr>userScrolling := True\<rparr>"
        and cfg = demo_config and slideWidth = 100 and now = 9000 and newHass = "demo_hass ''3.0''"]
    by simp
  have b: "syncFromStateEntity demo_config 100 9000 (demo_hass ''unavailable'') demo_widget = demo_widget"
    using syncFromStateEntity_inbound [where w = demo_widget
        and cfg = demo_config and slideWidth = 100 and now = 9000
        and newHass = "demo_hass ''unavailable''" and entity = "''input_number.page''"
        and st = "''unavailable''"]
    by (simp add: d)
  have c: "syncFromStateEntity demo_config 100 9000 (demo_hass ''7'') demo_widget = demo_widget"
    using syncFromStateEntity_inbound [where w = demo_widget
        and cfg = demo_config and slideWidth = 100 and now = 9000
        and newHass = "demo_hass ''7''" and entity = "''input_number.page''"
        and st = "''7''" and v = 7]
    by (simp add: d)
  have e: "syncFromStateEntity demo_config 100 9000 (demo_hass ''2.0'') demo_widget = demo_widget"
    using syncFromStateEntity_inbound [where w = demo_widget
        and cfg = demo_config and slideWidth = 100 and now = 9000
        and newHass = "demo_hass ''2.0''" and entity = "''input_number.page''"
        and st = "''2.0''" and v = 2]
    by (simp add: d)
  have f: "syncFromStateEntity demo_config 100 9000 (demo_hass ''3.0'')
        (demo_widget\<lparr>lastSyncedValue := Some 3, syncedAt := 7001\<rparr>)
       = demo_widget\<lparr>lastSyncedValue := Some 3, syncedAt := 7001\<rparr>"
    using syncFromStateEntity_inbound [where w = "demo_widget\<lparr>lastSyncedValue := Some 3, syncedAt := 7001\<rparr>"
        and cfg = demo_config and slideWidth = 100 and now = 9000
        and newHass = "demo_hass ''3.0''" and entity = "''input_number.page''"
        and st = "''3.0''" and v = 3]
    by (simp add: d)
  have g: "syncFromStateEntity demo_config 100 9001 (demo_hass ''3.0'')
        (demo_widget\<lparr>lastSyncedValue := Some 3, syncedAt := 7001\<rparr>)
       = (goToRealIndex 100 2 True
            (demo_widget\<lparr>lastSyncedValue := Some 3, syncedAt := 7001, stateUpdateInProgress := True\<rparr>))
           \<lparr>stateUpdateInProgress := False\<rparr>"
    using syncFromStateEntity_inbound [where w = "demo_widget\<lparr>lastSyncedValue := Some 3, syncedAt := 7001\<rparr>"
        and cfg = demo_config and slideWidth = 100 and now = 9001
        and newHass = "demo_hass ''3.0''" and entity = "''input_number.page''"
        and st = "''3.0''" and v = 3]
    by (simp add: d)
  have n: "syncFromStateEntity (demo_config\<lparr>state_entity := None\<rparr>) 100 9000 (demo_hass ''3.0'')
        demo_widget = demo_widget"
    using syncFromStateEntity_inbound [where w = demo_widget
        and cfg = "demo_config\<lparr>state_entity := None\<rparr>" and slideWidth = 100 and now = 9000
        and newHass = "demo_hass ''3.0''"]
    by simp
  have m: "syncFromStateEntity demo_config 100 9000 \<lparr>states = Map.empty\<rparr> demo_widget = demo_widget"
    using syncFromStateEntity_inbound [where w = demo_widget
        and cfg = demo_config and slideWidth = 100 and now = 9000
        and newHass = "\<lparr>states = Map.empty\<rparr>" and entity = "''input_number.page''"]
    by (simp add: d)
  show ?thesis
    unfolding a b c e f g n m
    by (simp add: demo_widget_built goToRealIndex_def clampIndex_def domIndexOf_def
        updatePagination_def emit_def Let_def)
qed

subsection \<open>Settling on a clone\<close>







subsection \<open>The position after a settle\<close>

text \<open>
  C2, at an input where it fails. The sample card loops over three cards, so its real
  index should stay within 0 and 2 and its DOM index should be the real index plus one.
  After the held drag no jump is pending, yet the real index is \<open>-1\<close> with DOM index 0,
  and the value 0 has been written to the numeric helper: the scroll handler clamps the
  real index, the settle handler does not.
\<close>

theorem settle_between_clone_and_first_slide:
  "realIndex held_drag = - 1 \<and> currentIndex held_drag = 0 \<and> \<not> jumping held_drag
   \<and> isInfiniteMode held_drag \<and> initialized held_drag \<and> length (cards held_drag) = 3
   \<and> effects held_drag =
        [ClearTimer ScrollSettleTimer, PaginationScrolling True, ClearTimer PaginationHideTimer,
         UpdatePagination 0, ClearTimer ScrollTimer, SetTimer ScrollTimer 150,
         UpdatePagination (- 1),
         CallService ''input_number'' ''set_value'' ''input_number.page'' 0,
         ClearTimer ResetTimer, SetTimer ResetTimer 30000, PaginationScrolling False,
         ClearTimer ScrollSettleTimer, SetTimer ScrollSettleTimer 500]"
  by (simp add: held_drag_def demo_widget_built handleScroll_def handleScroll_frame_def onScrollEnd_def
      realIndexOf_def clampIndex_def settle_simps demo_config_def demo_hass_def js_simps Let_def)


text \<open>
  The first render does not clamp the start card either: with a start card of 5 the card
  with three slides starts on real index 4 and DOM index 5.
\<close>

lemma start_card_beyond_last_slide:
  "realIndex (final_widget (buildCards demo_factory late_start)) = 4
   \<and> currentIndex (final_widget (buildCards demo_factory late_start)) = 5
   \<and> initialized (final_widget (buildCards demo_factory late_start))
   \<and> length (cards (final_widget (buildCards demo_factory late_start))) = 3
   \<and> length (allSlideCards (final_widget (buildCards demo_factory late_start))) = 5"
  by (simp add: late_start_def build_simps js_simps new_widget_def demo_config_def
        demo_hass_def demo_factory_def Let_def)

subsection \<open>The undisturbed build\<close>

lemma length_built_cards: "length (built_cards fac k ds) = length ds"
  by (induction ds arbitrary: k) simp_all

lemma nth_built_cards:
  "i < length ds \<Longrightarrow> built_cards fac k ds ! i = slideOf (fac (k + i) (Some (ds ! i)))"
proof (induction ds arbitrary: k i)
  case Nil
  then show ?case by simp
next
  case (Cons d ds)
  then show ?case by (cases i) simp_all
qed

lemma run_build_loop:
  "run_build fac k (buildCards_loop tid descs w) =
     run_build fac (k + length descs)
       (buildCards_afterLoop tid (w\<lparr>cards := cards w @ built_cards fac k descs\<rparr>))"
proof (induction descs arbitrary: k w)
  case Nil
  then show ?case by (simp add: buildCards_loop_def)
next
  case (Cons d rest)
  have "run_build fac k (buildCards_loop tid (d # rest) w) =
        run_build fac (Suc k)
          (buildCards_loop tid rest (w\<lparr>cards := cards w @ [slideOf (fac k (Some d))]\<rparr>))"
    by (simp add: buildCards_loop_def buildCards_afterCreate_def)
  also have "\<dots> = run_build fac (Suc k + length rest)
       (buildCards_afterLoop tid
          (w\<lparr>cards := cards w @ [slideOf (fac k (Some d))],
             cards := cards (w\<lparr>cards := cards w @ [slideOf (fac k (Some d))]\<rparr>)
                       @ built_cards fac (Suc k) rest\<rparr>))"
    by (rule Cons.IH)
  finally show ?case by simp
qed

lemma buildCards_unfolded:
  assumes "config w = Some cfg" and "hass w = Some h" and "\<not> initialized w"
  shows "buildCards fac w =
     (if \<not> isInfiniteMode (decided fac cfg w) then Returned (commit cfg (decided fac cfg w))
      else case fac (length (cards_cfg cfg)) (Some (last (cards_cfg cfg))) of
             Rejected msg \<Rightarrow> Threw msg (decided fac cfg w)
           | Resolved cloneOfLast \<Rightarrow>
               (case fac (Suc (length (cards_cfg cfg))) (Some (hd (cards_cfg cfg))) of
                  Rejected msg \<Rightarrow> Threw msg (decided fac cfg w)
                | Resolved cloneOfFirst \<Rightarrow>
                    Returned (commit cfg
                      ((decided fac cfg w)
                         \<lparr>allSlideCards := [Card cloneOfLast] @ built_cards fac 0 (cards_cfg cfg)
                                            @ [Card cloneOfFirst]\<rparr>))))"
proof -
  let ?n = "length (cards_cfg cfg)"
  let ?w1 = "w\<lparr>buildId := Suc (buildId w)\<rparr>"
  have start: "buildCards fac w = run_build fac 0 (buildCards_afterHelpers (Suc (buildId w)) ?w1)"
    using assms by (simp add: buildCards_def buildCards_start_def Let_def)
  have "buildCards_afterHelpers (Suc (buildId w)) ?w1 =
        buildCards_loop (Suc (buildId w)) (cards_cfg cfg) (?w1\<lparr>cards := []\<rparr>)"
    using assms by (simp add: buildCards_afterHelpers_def)
  then have loop: "buildCards fac w =
      run_build fac ?n (buildCards_afterLoop (Suc (buildId w))
          (?w1\<lparr>cards := built_cards fac 0 (cards_cfg cfg)\<rparr>))"
    using start by (simp add: run_build_loop)
  show ?thesis
  proof (cases "isInfiniteMode (decided fac cfg w)")
    case False
    have fin: "buildCards_afterLoop (Suc (buildId w))
          (?w1\<lparr>cards := built_cards fac 0 (cards_cfg cfg)\<rparr>) =
        Returned (commit cfg (decided fac cfg w))"
      using assms False
      by (simp add: buildCards_afterLoop_def buildCards_finish_def decided_def Let_def
          length_built_cards)
    show ?thesis
      unfolding loop fin using False by simp
  next
    case True
    then have n: "cards_cfg cfg \<noteq> []" by (auto simp: decided_def)
    have nth: "js_nth (cards_cfg cfg) (int ?n - 1) = Some (last (cards_cfg cfg))"
      "js_nth (cards_cfg cfg) 0 = Some (hd (cards_cfg cfg))"
      using n by (simp_all add: js_nth_def last_conv_nth hd_conv_nth nat_diff_distrib')
    have susp: "buildCards_afterLoop (Suc (buildId w))
          (?w1\<lparr>cards := built_cards fac 0 (cards_cfg cfg)\<rparr>) =
        Suspended \<lparr>thisBuildId = Suc (buildId w), pc = AwaitCloneOfLast (Some (last (cards_cfg cfg)))\<rparr>
          (decided fac cfg w)"
      using assms True nth
      by (simp add: buildCards_afterLoop_def decided_def Let_def length_built_cards)
    show ?thesis
      using assms True nth
      unfolding loop susp
      by (simp add: buildCards_afterCreate_def buildCards_finish_def decided_def
          split: outcome.splits)
  qed
qed

lemma commit_fields:
  "cards (commit cfg w) = cards w"
  "allSlideCards (commit cfg w) = allSlideCards w"
  "isInfiniteMode (commit cfg w) = isInfiniteMode w"
  "initialized (commit cfg w)"
  by (simp_all add: commit_def render_def startPaginationHideTimer_def emit_def Let_def)

lemma decided_fields:
  "cards (decided fac cfg w) = built_cards fac 0 (cards_cfg cfg)"
  "allSlideCards (decided fac cfg w) = built_cards fac 0 (cards_cfg cfg)"
  "isInfiniteMode (decided fac cfg w) =
     ((loop_mode cfg = ''infinite'' \<or> loop_mode cfg = ''loopback'') \<and> length (cards_cfg cfg) > 1)"
  "initialized (decided fac cfg w) = initialized w"
  "cachedScroller (decided fac cfg w) = cachedScroller w"
  by (simp_all add: decided_def)

text \<open>
  C1. A build that runs undisturbed on a card that has a configuration and a context and
  is not initialised enables infinite mode exactly when the loop mode is \<open>infinite\<close> (or
  its alias \<open>loopback\<close>) and more than one real card was constructed; it constructs one
  real card per description. When it commits in infinite mode, the mounted sequence is
  two longer than the list of real cards: it starts with an element the factory made from
  the last description, continues with the real cards in order, and ends with an element
  the factory made from the first description. When it commits otherwise, the mounted
  sequence is the list of real cards.
\<close>

theorem infinite_mode_and_display_sequence:
  assumes "config w = Some cfg" and "hass w = Some h" and "\<not> initialized w"
  shows "isInfiniteMode (final_widget (buildCards fac w)) =
           ((loop_mode cfg = ''infinite'' \<or> loop_mode cfg = ''loopback'')
            \<and> length (cards (final_widget (buildCards fac w))) > 1)
       \<and> length (cards (final_widget (buildCards fac w))) = length (cards_cfg cfg)
       \<and> (\<forall>w'. buildCards fac w = Returned w' \<and> isInfiniteMode w' \<longrightarrow>
              initialized w'
            \<and> length (allSlideCards w') = length (cards w') + 2
            \<and> (\<forall>i < length (cards_cfg cfg).
                  cards w' ! i = slideOf (fac i (Some (cards_cfg cfg ! i))))
            \<and> (\<exists>cloneOfLast cloneOfFirst.
                  fac (length (cards_cfg cfg))
                      (Some (cards_cfg cfg ! (length (cards_cfg cfg) - 1))) = Resolved cloneOfLast
                \<and> fac (Suc (length (cards_cfg cfg))) (Some (cards_cfg cfg ! 0))
                      = Resolved cloneOfFirst
                \<and> allSlideCards w' = [Card cloneOfLast] @ cards w' @ [Card cloneOfFirst]))
       \<and> (\<forall>w'. buildCards fac w = Returned w' \<and> \<not> isInfiniteMode w' \<longrightarrow>
              initialized w' \<and> allSlideCards w' = cards w')"
proof -
  note u = buildCards_unfolded [OF assms, of fac]
  let ?ds = "cards_cfg cfg"
  have mode: "isInfiniteMode (final_widget (buildCards fac w)) = isInfiniteMode (decided fac cfg w)"
    and crd: "cards (final_widget (buildCards fac w)) = built_cards fac 0 ?ds"
    unfolding u by (simp_all add: commit_fields decided_fields split: outcome.splits)
  have first: "isInfiniteMode (final_widget (buildCards fac w)) =
           ((loop_mode cfg = ''infinite'' \<or> loop_mode cfg = ''loopback'')
            \<and> length (cards (final_widget (buildCards fac w))) > 1)"
    unfolding mode crd by (simp add: decided_fields length_built_cards)
  have second: "length (cards (final_widget (buildCards fac w))) = length ?ds"
    unfolding crd by (simp add: length_built_cards)
  have third: "initialized w'
            \<and> length (allSlideCards w') = length (cards w') + 2
            \<and> (\<forall>i < length ?ds. cards w' ! i = slideOf (fac i (Some (?ds ! i))))
            \<and> (\<exists>cloneOfLast cloneOfFirst.
                  fac (length ?ds) (Some (?ds ! (length ?ds - 1))) = Resolved cloneOfLast
                \<and> fac (Suc (length ?ds)) (Some (?ds ! 0)) = Resolved cloneOfFirst
                \<and> allSlideCards w' = [Card cloneOfLast] @ cards w' @ [Card cloneOfFirst])"
    if r: "buildCards fac w = Returned w'" and i: "isInfiniteMode w'" for w'
  proof -
    have "isInfiniteMode (final_widget (buildCards fac w))" using r i by simp
    then have inf: "isInfiniteMode (decided fac cfg w)" using mode by simp
    then have ne: "?ds \<noteq> []" by (auto simp: decided_fields)
    have lh: "last ?ds = ?ds ! (length ?ds - 1)" "hd ?ds = ?ds ! 0"
      using ne by (simp_all add: last_conv_nth hd_conv_nth)
    from r inf obtain cl cf where
      cl: "fac (length ?ds) (Some (last ?ds)) = Resolved cl" and
      cf: "fac (Suc (length ?ds)) (Some (hd ?ds)) = Resolved cf" and
      w': "w' = commit cfg ((decided fac cfg w)
                 \<lparr>allSlideCards := [Card cl] @ built_cards fac 0 ?ds @ [Card cf]\<rparr>)"
      unfolding u by (auto split: outcome.splits)
    have c: "cards w' = built_cards fac 0 ?ds"
      and a: "allSlideCards w' = [Card cl] @ built_cards fac 0 ?ds @ [Card cf]"
      and ini: "initialized w'"
      unfolding w' by (simp_all add: commit_fields decided_fields)
    show ?thesis
      using c a ini cl cf lh by (simp add: length_built_cards nth_built_cards)
  qed
  have fourth: "initialized w' \<and> allSlideCards w' = cards w'"
    if r: "buildCards fac w = Returned w'" and i: "\<not> isInfiniteMode w'" for w'
  proof -
    have "\<not> isInfiniteMode (final_widget (buildCards fac w))" using r i by simp
    then have inf: "\<not> isInfiniteMode (decided fac cfg w)" using mode by simp
    with r have "w' = commit cfg (decided fac cfg w)" unfolding u by simp
    then show ?thesis by (simp add: commit_fields decided_fields)
  qed
  show ?thesis using first second third fourth by blast
qed

lemma demo_build: "buildCards demo_factory demo_start = Returned demo_widget"
  by (simp add: demo_start_def demo_widget_built build_simps js_simps new_widget_def demo_config_def
        demo_hass_def demo_factory_def Let_def)

theorem infinite_mode_and_display_sequence_witness:
  "config demo_start = Some demo_config \<and> hass demo_start = Some (demo_hass ''2.0'')
   \<and> \<not> initialized demo_start
   \<and> buildCards demo_factory demo_start = Returned demo_widget
   \<and> isInfiniteMode demo_widget \<and> initialized demo_widget
   \<and> loop_mode demo_config = ''infinite''
   \<and> length (cards demo_widget) = 3
   \<and> length (allSlideCards demo_widget) = length (cards demo_widget) + 2
   \<and> allSlideCards demo_widget = [Card (''media'', 3)] @ cards demo_widget @ [Card (''weather'', 4)]
   \<and> cards demo_widget ! 2 = slideOf (demo_factory 2 (Some (cards_cfg demo_config ! 2)))
   \<and> demo_factory 3 (Some (cards_cfg demo_config ! 2)) = Resolved (''media'', 3)
   \<and> buildCards broken_factory (broken_start ''none'')
       = Returned (final_widget (buildCards broken_factory (broken_start ''none'')))
   \<and> \<not> isInfiniteMode (final_widget (buildCards broken_factory (broken_start ''none'')))
   \<and> initialized (final_widget (buildCards broken_factory (broken_start ''none'')))
   \<and> allSlideCards (final_widget (buildCards broken_factory (broken_start ''none'')))
       = cards (final_widget (buildCards broken_factory (broken_start ''none'')))"
proof -
  have a: "config demo_start = Some demo_config" "hass demo_start = Some (demo_hass ''2.0'')"
    "\<not> initialized demo_start"
    by (simp_all add: demo_start_def new_widget_def)
  note t = infinite_mode_and_display_sequence [OF a, of demo_factory]
  have i: "isInfiniteMode demo_widget" by (simp add: demo_widget_built)
  from t demo_build i have
    "initialized demo_widget
     \<and> length (allSlideCards demo_widget) = length (cards demo_widget) + 2
     \<and> (\<forall>i < length (cards_cfg demo_config).
            cards demo_widget ! i = slideOf (demo_factory i (Some (cards_cfg demo_config ! i))))"
    by blast
  moreover have "length (cards_cfg demo_config) = 3" "loop_mode demo_config = ''infinite''"
    by (simp_all add: demo_config_def)
  moreover have "length (cards demo_widget) = 3"
    "allSlideCards demo_widget = [Card (''media'', 3)] @ cards demo_widget @ [Card (''weather'', 4)]"
    by (simp_all add: demo_widget_built)
  moreover have "demo_factory 3 (Some (cards_cfg demo_config ! 2)) = Resolved (''media'', 3)"
    by (simp add: demo_factory_def demo_config_def)
  moreover have
    "buildCards broken_factory (broken_start ''none'')
       = Returned (final_widget (buildCards broken_factory (broken_start ''none'')))
     \<and> \<not> isInfiniteMode (final_widget (buildCards broken_factory (broken_start ''none'')))
     \<and> initialized (final_widget (buildCards broken_factory (broken_start ''none'')))
     \<and> allSlideCards (final_widget (buildCards broken_factory (broken_start ''none'')))
         = cards (final_widget (buildCards broken_factory (broken_start ''none'')))"
  proof -
    let ?b = "broken_start ''none''"
    have b: "config ?b = Some (broken_config\<lparr>loop_mode := ''none''\<rparr>)"
      "hass ?b = Some (demo_hass ''1.0'')" "\<not> initialized ?b"
      by (simp_all add: broken_start_def new_widget_def)
    have ret: "buildCards broken_factory ?b = Returned (final_widget (buildCards broken_factory ?b))"
      and no: "\<not> isInfiniteMode (final_widget (buildCards broken_factory ?b))"
      by (simp_all add: broken_start_def broken_config_def broken_factory_def build_simps js_simps
          new_widget_def demo_config_def demo_hass_def demo_factory_def Let_def)
    from infinite_mode_and_display_sequence [OF b, of broken_factory] ret no
    have "initialized (final_widget (buildCards broken_factory ?b))
        \<and> allSlideCards (final_widget (buildCards broken_factory ?b))
            = cards (final_widget (buildCards broken_factory ?b))"
      by blast
    with ret no show ?thesis by simp
  qed
  ultimately show ?thesis using a demo_build i by simp
qed

subsection \<open>A child that cannot be built\<close>

text \<open>
  Without looping, or with at most one child, an undisturbed build completes whatever the
  factory does: it returns with the card initialised and one slide per description, a
  placeholder where the factory failed.
\<close>

lemma build_without_clones_completes:
  assumes "config w = Some cfg" and "hass w = Some h" and "\<not> initialized w"
    and "\<not> ((loop_mode cfg = ''infinite'' \<or> loop_mode cfg = ''loopback'')
              \<and> length (cards_cfg cfg) > 1)"
  shows "buildCards fac w = Returned (commit cfg (decided fac cfg w))"
    and "initialized (commit cfg (decided fac cfg w))"
    and "cards (commit cfg (decided fac cfg w)) = built_cards fac 0 (cards_cfg cfg)"
  using assms(4) buildCards_unfolded [OF assms(1-3), of fac]
  by (simp_all add: commit_fields decided_fields)

text \<open>
  C7, at an input where it fails. With two children and looping, the factory fails on the
  last description. In the loop over the real cards the failure is caught and a
  placeholder is mounted; when the same description is built again for the leading clone,
  the failure is not caught: the build ends with the exception, the card is neither
  rendered nor initialised. Without looping the same card is built and initialised, with
  the placeholder in second place.
\<close>

theorem failing_last_card_aborts_looping_build:
  "buildCards broken_factory (broken_start ''infinite'') =
     Threw ''Unknown type encountered: broken''
       ((broken_start ''infinite'')
          \<lparr>cards := [Card (''weather'', 0), ErrorCard ''Unknown type encountered: broken''],
           allSlideCards := [Card (''weather'', 0), ErrorCard ''Unknown type encountered: broken''],
           buildId := 1, isInfiniteMode := True\<rparr>)
   \<and> \<not> initialized (final_widget (buildCards broken_factory (broken_start ''infinite'')))
   \<and> \<not> cachedScroller (final_widget (buildCards broken_factory (broken_start ''infinite'')))
   \<and> initialized (final_widget (buildCards broken_factory (broken_start ''none'')))
   \<and> cards (final_widget (buildCards broken_factory (broken_start ''none''))) =
        [Card (''weather'', 0), ErrorCard ''Unknown type encountered: broken'']"
  by (simp add: broken_start_def broken_config_def broken_factory_def build_simps js_simps
      new_widget_def demo_config_def demo_hass_def demo_factory_def Let_def)

subsection \<open>Overlapping builds\<close>

text \<open>
  The three places where \<open>_buildCards\<close> compares its build id with the current one
  return without touching the card when the ids differ.
\<close>

lemma superseded_checkpoints_return:
  assumes "tid \<noteq> buildId w"
  shows "buildCards_afterHelpers tid w = Returned w"
    and "buildCards_afterLoop tid w = Returned w"
    and "buildCards_finish tid w = Returned w"
  using assms
  by (simp_all add: buildCards_afterHelpers_def buildCards_afterLoop_def buildCards_finish_def)

text \<open>
  The resumption after \<open>createCardElement\<close> inside the loop appends to the list of real
  cards before any such comparison.
\<close>

lemma superseded_loop_step_appends:
  "cards (final_widget (buildCards_afterCreate res \<lparr>thisBuildId = tid, pc = AwaitCard d rest\<rparr> w))
     = cards w @ [slideOf res]"
  by (simp add: buildCards_afterCreate_def buildCards_loop_def buildCards_afterLoop_def
      buildCards_finish_def commit_def render_def startPaginationHideTimer_def emit_def Let_def
      split: list.splits option.splits)

lemmas race_simps = race_context1_def race_helpers1_def race_context2_def race_helpers2_def
  race_card1_def race_card2_def first_task_def second_task_def single_config_def set_hass_def

text \<open>
  C6, at an input where it fails. When the factory answers build 1, build 2 has already
  taken a newer build id and emptied the list of real cards; build 1 still appends its
  card to that list, and only then notices that it is superseded and returns. Build 2
  appends its own card and commits: the initialised card shows two slides for a
  configuration with one child.
\<close>

theorem superseded_build_changes_slide_list:
  "snd race_context1 = Some 1
   \<and> race_helpers1 = Suspended first_task (final_widget race_helpers1)
   \<and> snd race_context2 = Some 2
   \<and> race_helpers2 = Suspended second_task (final_widget race_helpers2)
   \<and> buildId (final_widget race_helpers2) = 2
   \<and> thisBuildId first_task = 1
   \<and> cards (final_widget race_helpers2) = []
   \<and> race_card1 = Returned (final_widget race_card1)
   \<and> cards (final_widget race_card1) = [Card (''weather'', 0)]
   \<and> \<not> initialized (final_widget race_card1)
   \<and> race_card2 = Returned (final_widget race_card2)
   \<and> initialized (final_widget race_card2)
   \<and> cards_cfg single_config = [''weather'']
   \<and> cards (final_widget race_card2) = [Card (''weather'', 0), Card (''weather'', 1)]
   \<and> allSlideCards (final_widget race_card2) = [Card (''weather'', 0), Card (''weather'', 1)]"
  by (simp add: race_simps build_simps js_simps new_widget_def demo_config_def demo_hass_def Let_def)

end
